theory Spec2Isabelle
  imports Main "HOL-Library.Sublist"
begin

section \<open>Firestore documents and the SDK calls the tools make\<close>

text \<open>
  The tools of \<^verbatim>\<open>supreme-commander-agent/app/tools.py\<close> keep their bookkeeping in
  Firestore collections. A document is a Python dict from field names to values; a field
  value is one of the JSON-like values below. Strings are byte strings (UTF-8).
\<close>

datatype fsval =
    VNull
  | VBool bool
  | VInt int
  | VStr string
  | VList "fsval list"
  | VDict "(string \<times> fsval) list"

type_synonym doc = "(string \<times> fsval) list"

type_synonym collection = "string \<rightharpoonup> doc"

record firestore =
  tasks :: collection
  task_plans :: collection
  coordination_requests :: collection

text \<open>
  A Python exception: the name of its class and the text \<^verbatim>\<open>str(e)\<close> gives.
\<close>

datatype exn = Exn (exn_type: string) (exn_str: string)

text \<open>
  What the outside world does during one call of a tool: whether
  \<^verbatim>\<open>firestore.client()\<close>, a \<^verbatim>\<open>.get()\<close> on a collection or a \<^verbatim>\<open>.set()\<close>
  raises, the identifier \<^verbatim>\<open>.document()\<close> generates, and the clock reading
  \<^verbatim>\<open>datetime.now(UTC).isoformat()\<close>. A \<^verbatim>\<open>.set()\<close> that raises is taken to have
  written nothing (a single-document write of Firestore is atomic).
\<close>

record sdk =
  client_raises :: "exn option"
  get_raises :: "string \<Rightarrow> exn option"
  set_raises :: "exn option"
  auto_id :: string
  now_iso :: string

definition reads_ok :: "sdk \<Rightarrow> bool" where
  "reads_ok k \<longleftrightarrow>
     client_raises k = None \<and> get_raises k ''tasks'' = None \<and> get_raises k ''task_plans'' = None"


text \<open>
  Every tool returns a string built from one of a fixed set of f-string templates. A reply
  names the template and carries the values interpolated into it, in the template's order.
\<close>

datatype reply =
    Delegated string string string
      \<comment> \<open>"Task delegated successfully": task id, agent, priority\<close>
  | DelegateFailed string
      \<comment> \<open>"Failed to delegate task: {str(e)}"\<close>
  | CoordinationSent string string
      \<comment> \<open>"Coordination request sent to {peer}": peer, request id\<close>
  | CoordinationFailed string
      \<comment> \<open>"Coordination failed: {str(e)}"\<close>
  | PlanCreated string string
      \<comment> \<open>"Task plan created": plan id, objective\<close>
  | PlanCreateFailed string
      \<comment> \<open>"Failed to create plan: {str(e)}"\<close>
  | TaskStatus string fsval fsval fsval fsval fsval
      \<comment> \<open>"Task Status": id, agent, description, status, priority, created\<close>
  | PlanStatus string fsval nat nat fsval fsval
      \<comment> \<open>"Plan Status": id, objective, completed, total, status, created\<close>
  | NotFound string
      \<comment> \<open>"Goal/task not found: {goal_id}"\<close>
  | TrackFailed string
      \<comment> \<open>"Failed to track: {str(e)}"\<close>

subsection \<open>Python's dict and iteration on field values\<close>

definition dict_get :: "doc \<Rightarrow> string \<Rightarrow> fsval \<Rightarrow> fsval" where
  \<comment> \<open>\<^verbatim>\<open>d.get(k, default)\<close>\<close>
  "dict_get d k dflt = (case map_of d k of Some v \<Rightarrow> v | None \<Rightarrow> dflt)"

fun type_name :: "fsval \<Rightarrow> string" where
  "type_name VNull = ''NoneType''"
| "type_name (VBool b) = ''bool''"
| "type_name (VInt i) = ''int''"
| "type_name (VStr s) = ''str''"
| "type_name (VList xs) = ''list''"
| "type_name (VDict d) = ''dict''"

definition quoted :: "string \<Rightarrow> string" where
  "quoted s = CHR 0x27 # s @ [CHR 0x27]"

fun attr_get :: "fsval \<Rightarrow> string \<Rightarrow> exn + fsval" where
  \<comment> \<open>\<^verbatim>\<open>t.get(k)\<close> on a value that need not be a dict\<close>
  "attr_get (VDict d) k = Inr (dict_get d k VNull)"
| "attr_get v k =
     Inl (Exn ''AttributeError'' (quoted (type_name v) @ '' object has no attribute '' @ quoted ''get''))"

fun py_iter :: "fsval \<Rightarrow> exn + fsval list" where
  \<comment> \<open>the elements a \<^verbatim>\<open>for\<close> over the value visits; \<^verbatim>\<open>len\<close> of the value is their number\<close>
  "py_iter (VList xs) = Inr xs"
| "py_iter (VStr s) = Inr (map (\<lambda>c. VStr [c]) s)"
| "py_iter (VDict d) = Inr (map VStr (remdups (map fst d)))"
| "py_iter v = Inl (Exn ''TypeError'' (quoted (type_name v) @ '' object is not iterable''))"

fun completed_of :: "fsval list \<Rightarrow> exn + fsval list" where
  \<comment> \<open>\<^verbatim>\<open>[t for t in tasks if t.get('status') == 'completed']\<close>\<close>
  "completed_of [] = Inr []"
| "completed_of (t # ts) =
     (case attr_get t ''status'' of
        Inl e \<Rightarrow> Inl e
      | Inr s \<Rightarrow>
          (case completed_of ts of
             Inl e \<Rightarrow> Inl e
           | Inr r \<Rightarrow> Inr (if s = VStr ''completed'' then t # r else r)))"

subsection \<open>The ledger tools\<close>

definition default_arg :: "'a option \<Rightarrow> 'a \<Rightarrow> 'a" where
  \<comment> \<open>a keyword argument with a default: \<open>None\<close> is the call that omits it\<close>
  "default_arg a dflt = (case a of Some v \<Rightarrow> v | None \<Rightarrow> dflt)"



definition create_task_plan ::
  "sdk \<Rightarrow> firestore \<Rightarrow> string \<Rightarrow> string option \<Rightarrow> reply \<times> firestore" where
  "create_task_plan k db objective context_arg =
     (case client_raises k of
        Some e \<Rightarrow> (PlanCreateFailed (exn_str e), db)
      | None \<Rightarrow>
          (let context = default_arg context_arg [];
               plan_ref = auto_id k;
               plan_data =
                 [(''objective'', VStr objective),
                  (''context'', VStr context),
                  (''status'', VStr ''draft''),
                  (''created_at'', VStr (now_iso k)),
                  (''created_by'', VStr ''supreme_commander''),
                  (''tasks'', VList [])]
           in case set_raises k of
                Some e \<Rightarrow> (PlanCreateFailed (exn_str e), db)
              | None \<Rightarrow>
                  (PlanCreated plan_ref objective,
                   db\<lparr>task_plans := (task_plans db)(plan_ref \<mapsto> plan_data)\<rparr>)))"

definition track_goal_progress :: "sdk \<Rightarrow> firestore \<Rightarrow> string \<Rightarrow> reply" where
  "track_goal_progress k db goal_id =
     (case client_raises k of
        Some e \<Rightarrow> TrackFailed (exn_str e)
      | None \<Rightarrow>
     (case get_raises k ''tasks'' of
        Some e \<Rightarrow> TrackFailed (exn_str e)
      | None \<Rightarrow>
     (case get_raises k ''task_plans'' of
        Some e \<Rightarrow> TrackFailed (exn_str e)
      | None \<Rightarrow>
     (case tasks db goal_id of
        Some data \<Rightarrow>
          TaskStatus goal_id
            (dict_get data ''agent_id'' (VStr ''N/A''))
            (dict_get data ''task_description'' (VStr ''N/A''))
            (dict_get data ''status'' (VStr ''unknown''))
            (dict_get data ''priority'' (VStr ''N/A''))
            (dict_get data ''created_at'' (VStr ''N/A''))
      | None \<Rightarrow>
     (case task_plans db goal_id of
        Some data \<Rightarrow>
          (case py_iter (dict_get data ''tasks'' (VList [])) of
             Inl e \<Rightarrow> TrackFailed (exn_str e)
           | Inr ts \<Rightarrow>
               (case completed_of ts of
                  Inl e \<Rightarrow> TrackFailed (exn_str e)
                | Inr cs \<Rightarrow>
                    PlanStatus goal_id
                      (dict_get data ''objective'' (VStr ''N/A''))
                      (length cs) (length ts)
                      (dict_get data ''status'' (VStr ''unknown''))
                      (dict_get data ''created_at'' (VStr ''N/A''))))
      | None \<Rightarrow> NotFound goal_id)))))"

text \<open>
  What the progress claims count: an entry of a plan's \<^verbatim>\<open>tasks\<close> list is a task document,
  and it is completed when its \<^verbatim>\<open>status\<close> field is the string \<^verbatim>\<open>completed\<close>.
\<close>

fun is_task_entry :: "fsval \<Rightarrow> bool" where
  "is_task_entry (VDict d) = True"
| "is_task_entry v = False"

fun entry_completed :: "fsval \<Rightarrow> bool" where
  "entry_completed (VDict d) = (map_of d ''status'' = Some (VStr ''completed''))"
| "entry_completed v = False"

section \<open>Slack notification\<close>

text \<open>
  \<^verbatim>\<open>send_slack_notification\<close> of \<^verbatim>\<open>tools.py\<close>. The module-level
  \<^verbatim>\<open>slack_client\<close> is absent (\<open>None\<close>) or answers a \<^verbatim>\<open>chat_postMessage\<close>
  for a channel and a text: with a response (whose \<^verbatim>\<open>ts\<close> field may be missing), with
  a \<^verbatim>\<open>SlackApiError\<close> carrying the error field of its response (taken to be
  present, as Slack sends it), or with another exception.
\<close>

datatype slack_result =
    Posted "string option"
  | SlackApiError string
  | SlackRaised exn

type_synonym slack_client = "string \<Rightarrow> string \<Rightarrow> slack_result"

datatype slack_reply =
    SlackNotConfigured
      \<comment> \<open>"Slack client not configured. Message logged instead."\<close>
  | SlackSent string string
      \<comment> \<open>"Slack message sent to #{channel}", "Message ID: {ts}"\<close>
  | SlackError string
      \<comment> \<open>"Slack error: {error}"\<close>
  | SendFailed string
      \<comment> \<open>"Failed to send message: {str(e)}"\<close>

definition info_emoji :: string where
  \<comment> \<open>U+2139 U+FE0F\<close>
  "info_emoji = [CHR 0xE2, CHR 0x84, CHR 0xB9, CHR 0xEF, CHR 0xB8, CHR 0x8F]"

definition warning_emoji :: string where
  \<comment> \<open>U+26A0 U+FE0F\<close>
  "warning_emoji = [CHR 0xE2, CHR 0x9A, CHR 0xA0, CHR 0xEF, CHR 0xB8, CHR 0x8F]"

definition critical_emoji :: string where
  \<comment> \<open>U+1F6A8\<close>
  "critical_emoji = [CHR 0xF0, CHR 0x9F, CHR 0x9A, CHR 0xA8]"

definition emoji_map :: "(string \<times> string) list" where
  "emoji_map =
     [(''info'', info_emoji), (''warning'', warning_emoji), (''critical'', critical_emoji)]"

definition channel_mention :: string where
  "channel_mention = ''<!channel>''"

definition formatted_message :: "string \<Rightarrow> string \<Rightarrow> string" where
  \<comment> \<open>the value of \<^verbatim>\<open>formatted_message\<close> when the message is posted\<close>
  "formatted_message priority message =
     (let formatted =
            (case map_of emoji_map priority of Some e \<Rightarrow> e | None \<Rightarrow> info_emoji)
              @ '' '' @ message
      in if priority = ''critical'' then channel_mention @ '' '' @ formatted else formatted)"

text \<open>
  The result is the reply and the \<^verbatim>\<open>chat_postMessage\<close> call that was made, if any, as
  the pair of its \<^verbatim>\<open>channel\<close> and \<^verbatim>\<open>text\<close> arguments.
\<close>

definition send_slack_notification ::
  "slack_client option \<Rightarrow> string \<Rightarrow> string \<Rightarrow> string option \<Rightarrow>
     slack_reply \<times> (string \<times> string) option" where
  "send_slack_notification client channel message priority_arg =
     (case client of
        None \<Rightarrow> (SlackNotConfigured, None)
      | Some chat_postMessage \<Rightarrow>
          (let priority = default_arg priority_arg ''info'';
               text = formatted_message priority message
           in (case chat_postMessage channel text of
                 Posted (Some ts) \<Rightarrow> SlackSent channel ts
               | Posted None \<Rightarrow> SendFailed (quoted ''ts'')
               | SlackApiError err \<Rightarrow> SlackError err
               | SlackRaised e \<Rightarrow> SendFailed (exn_str e),
               Some (channel, text))))"

section \<open>Peer coordination over A2A\<close>













section \<open>The Slack webhook\<close>











section \<open>The task lifecycle of the ledger\<close>

text \<open>
  Modelled from the spec: the operation \<^verbatim>\<open>advance_task_status\<close>, the error kinds and
  the enumerated task status of sections 3, 4.1 and 7. The source has no operation that
  changes the status of a stored task (the tools above create tasks and read them), so
  the definitions of this section follow the specification's words. A transition is legal
  when it moves forward along assigned, in_progress, then completed or failed; from
  assigned each of in_progress, completed and failed is reachable next.
\<close>

datatype task_state = Assigned | InProgress | Completed | Failed

datatype priority_level = Critical | High | Medium | Low

record ledger_task =
  agent :: string
  description :: string
  priority :: priority_level
  status :: task_state
  created_at :: string
  created_by :: string

datatype ledger_error =
  PersistenceError | NotFoundError | InvalidTransitionError | ValidationError

type_synonym ledger = "string \<rightharpoonup> ledger_task"

fun legal_transition :: "task_state \<Rightarrow> task_state \<Rightarrow> bool" where
  \<comment> \<open>Modelled from the spec: the lifecycle invariant of section 3\<close>
  "legal_transition Assigned InProgress = True"
| "legal_transition Assigned Completed = True"
| "legal_transition Assigned Failed = True"
| "legal_transition InProgress Completed = True"
| "legal_transition InProgress Failed = True"
| "legal_transition s s' = False"

definition advance_task_status ::
  "ledger \<Rightarrow> string \<Rightarrow> task_state \<Rightarrow> (ledger_error + unit) \<times> ledger" where
  \<comment> \<open>Modelled from the spec: \<^verbatim>\<open>advance_task_status(task_id, new_status)\<close> of section 4.1\<close>
  "advance_task_status L task_ident new_status =
     (case L task_ident of
        None \<Rightarrow> (Inl NotFoundError, L)
      | Some t \<Rightarrow>
          if legal_transition (status t) new_status
          then (Inr (), L(task_ident \<mapsto> t\<lparr>status := new_status\<rparr>))
          else (Inl InvalidTransitionError, L))"

fun advance_all :: "ledger \<Rightarrow> (string \<times> task_state) list \<Rightarrow> ledger" where
  \<comment> \<open>Modelled from the spec: a sequence of status requests, applied in order\<close>
  "advance_all L [] = L"
| "advance_all L ((i, s) # rs) = advance_all (snd (advance_task_status L i s)) rs"

text \<open>
  The position of a status on the forward path; completed and failed are both at its end.
\<close>

fun stage :: "task_state \<Rightarrow> nat" where
  "stage Assigned = 0"
| "stage InProgress = 1"
| "stage Completed = 2"
| "stage Failed = 2"

definition terminal :: "task_state \<Rightarrow> bool" where
  "terminal s \<longleftrightarrow> s = Completed \<or> s = Failed"

section \<open>Store failures\<close>



section \<open>Example inputs\<close>

definition quiet_sdk :: sdk where
  "quiet_sdk =
     \<lparr>client_raises = None, get_raises = (\<lambda>c. None), set_raises = None,
      auto_id = ''t1'', now_iso = ''2025-01-01T00:00:00+00:00''\<rparr>"

definition empty_db :: firestore where
  "empty_db = \<lparr>tasks = Map.empty, task_plans = Map.empty, coordination_requests = Map.empty\<rparr>"

definition both_db :: firestore where
  \<comment> \<open>the identifier \<open>g1\<close> names a task and a plan\<close>
  "both_db =
     \<lparr>tasks =
        [''g1'' \<mapsto> [(''agent_id'', VStr ''data_analyst_agent''), (''status'', VStr ''in_progress'')]],
      task_plans =
        [''g1'' \<mapsto> [(''objective'', VStr ''Deploy auth system''), (''tasks'', VList [])]],
      coordination_requests = Map.empty\<rparr>"

definition plan_db :: firestore where
  \<comment> \<open>a plan of three tasks, two of them completed and one failed\<close>
  "plan_db =
     \<lparr>tasks = Map.empty,
      task_plans =
        [''p1'' \<mapsto>
           [(''objective'', VStr ''Deploy auth system''),
            (''status'', VStr ''active''),
            (''tasks'',
               VList [VDict [(''status'', VStr ''completed'')],
                      VDict [(''status'', VStr ''failed'')],
                      VDict [(''status'', VStr ''completed'')]])]],
      coordination_requests = Map.empty\<rparr>"



definition echo_client :: slack_client where
  \<comment> \<open>a client whose every post succeeds\<close>
  "echo_client = (\<lambda>channel text. Posted (Some ''1234.5678''))"

definition done_ledger :: ledger where
  \<comment> \<open>one completed task and one assigned task\<close>
  "done_ledger =
     [''task_1'' \<mapsto>
        \<lparr>agent = ''engineering_agent_1'', description = ''Rotate the keys'', priority = High,
         status = Completed, created_at = ''2025-01-01T00:00:00+00:00'',
         created_by = ''supreme_commander''\<rparr>,
      ''task_2'' \<mapsto>
        \<lparr>agent = ''data_analyst_agent'', description = ''Q4 report'', priority = Medium,
         status = Assigned, created_at = ''2025-01-02T00:00:00+00:00'',
         created_by = ''supreme_commander''\<rparr>]"









section \<open>Progress queries\<close>

lemma completed_of_entries:
  "list_all is_task_entry ts \<Longrightarrow> completed_of ts = Inr (filter entry_completed ts)"
proof (induction ts)
  case Nil
  then show ?case by simp
next
  case (Cons t ts)
  then obtain d where t: "t = VDict d" by (cases t) auto
  from Cons have "completed_of ts = Inr (filter entry_completed ts)" by simp
  with t show ?case
    by (simp add: dict_get_def split: option.splits)
qed

text \<open>
  When no call to the store raises, the reply depends on the two lookups only, the task
  lookup first.
\<close>

lemma reads_ok_track:
  "reads_ok k \<Longrightarrow> track_goal_progress k db g =
     (case tasks db g of
        Some data \<Rightarrow>
          TaskStatus g
            (dict_get data ''agent_id'' (VStr ''N/A''))
            (dict_get data ''task_description'' (VStr ''N/A''))
            (dict_get data ''status'' (VStr ''unknown''))
            (dict_get data ''priority'' (VStr ''N/A''))
            (dict_get data ''created_at'' (VStr ''N/A''))
      | None \<Rightarrow>
     (case task_plans db g of
        Some data \<Rightarrow>
          (case py_iter (dict_get data ''tasks'' (VList [])) of
             Inl e \<Rightarrow> TrackFailed (exn_str e)
           | Inr ts \<Rightarrow>
               (case completed_of ts of
                  Inl e \<Rightarrow> TrackFailed (exn_str e)
                | Inr cs \<Rightarrow>
                    PlanStatus g
                      (dict_get data ''objective'' (VStr ''N/A''))
                      (length cs) (length ts)
                      (dict_get data ''status'' (VStr ''unknown''))
                      (dict_get data ''created_at'' (VStr ''N/A''))))
      | None \<Rightarrow> NotFound g))"
  by (simp add: reads_ok_def track_goal_progress_def)

lemma track_plan_only_without_task:
  "track_goal_progress k db g = PlanStatus g' ob c n st cr \<Longrightarrow> tasks db g = None"
  by (auto simp: track_goal_progress_def split: option.splits sum.splits)

text \<open>
  Claim C10. When an identifier is stored both as a task and as a plan and the reads
  succeed, \<^verbatim>\<open>track_goal_progress\<close> answers with the task's record; and whenever it
  answers with a plan status, the identifier is absent from the task collection.
\<close>

theorem track_goal_progress_task_first:
  "(reads_ok k \<and> tasks db g = Some td \<and> task_plans db g = Some pd \<longrightarrow>
      track_goal_progress k db g =
        TaskStatus g
          (dict_get td ''agent_id'' (VStr ''N/A''))
          (dict_get td ''task_description'' (VStr ''N/A''))
          (dict_get td ''status'' (VStr ''unknown''))
          (dict_get td ''priority'' (VStr ''N/A''))
          (dict_get td ''created_at'' (VStr ''N/A'')))
   \<and> (track_goal_progress k db g = PlanStatus g' ob c n st cr \<longrightarrow> tasks db g = None)"
  by (simp add: reads_ok_track track_plan_only_without_task)

theorem track_goal_progress_task_first_witness:
  "reads_ok quiet_sdk
   \<and> tasks both_db ''g1'' \<noteq> None \<and> task_plans both_db ''g1'' \<noteq> None
   \<and> track_goal_progress quiet_sdk both_db ''g1'' =
       TaskStatus ''g1'' (VStr ''data_analyst_agent'') (VStr ''N/A'') (VStr ''in_progress'')
         (VStr ''N/A'') (VStr ''N/A'')
   \<and> track_goal_progress quiet_sdk plan_db ''p1'' =
       PlanStatus ''p1'' (VStr ''Deploy auth system'') 2 3 (VStr ''active'') (VStr ''N/A'')
   \<and> tasks plan_db ''p1'' = None"
  using track_goal_progress_task_first
          [of quiet_sdk both_db "''g1''"
              "[(''agent_id'', VStr ''data_analyst_agent''), (''status'', VStr ''in_progress'')]"
              "[(''objective'', VStr ''Deploy auth system''), (''tasks'', VList [])]"]
        track_goal_progress_task_first
          [of quiet_sdk plan_db "''p1''" td pd "''p1''" "VStr ''Deploy auth system''" 2 3
              "VStr ''active''" "VStr ''N/A''"]
  by (simp add: reads_ok_def quiet_sdk_def both_db_def plan_db_def dict_get_def
        track_goal_progress_def)

text \<open>
  Claim C4. For an identifier stored neither as a task nor as a plan, when the reads
  succeed, \<^verbatim>\<open>track_goal_progress\<close> answers with the not-found reply for that identifier,
  which is no plan status (in particular not one of zero progress) and no task status.
\<close>

theorem track_goal_progress_not_found:
  assumes "reads_ok k" and "tasks db g = None" and "task_plans db g = None"
  shows "track_goal_progress k db g = NotFound g
       \<and> (\<forall>g' ob c n st cr. track_goal_progress k db g \<noteq> PlanStatus g' ob c n st cr)
       \<and> (\<forall>g' a d s p cr. track_goal_progress k db g \<noteq> TaskStatus g' a d s p cr)"
  using assms by (simp add: reads_ok_track)

theorem track_goal_progress_not_found_witness:
  "reads_ok quiet_sdk \<and> tasks plan_db ''nonexistent_123'' = None
   \<and> task_plans plan_db ''nonexistent_123'' = None
   \<and> track_goal_progress quiet_sdk plan_db ''nonexistent_123'' = NotFound ''nonexistent_123''"
proof -
  have h1: "reads_ok quiet_sdk" by (simp add: reads_ok_def quiet_sdk_def)
  have h2: "tasks plan_db ''nonexistent_123'' = None" by (simp add: plan_db_def)
  have h3: "task_plans plan_db ''nonexistent_123'' = None" by (simp add: plan_db_def)
  from track_goal_progress_not_found [OF h1 h2 h3] h1 h2 h3 show ?thesis by simp
qed

text \<open>
  Claim C2. For a plan whose identifier names no task and whose \<^verbatim>\<open>tasks\<close> field is a
  list of task documents, when the reads succeed, the reply is the plan status carrying
  the number of entries whose status is \<^verbatim>\<open>completed\<close> and the number of entries; for
  an empty list it carries 0 and 0, and no failure is reported.
\<close>

theorem plan_progress_counts_completed:
  assumes "reads_ok k" and "tasks db g = None" and "task_plans db g = Some data"
    and "dict_get data ''tasks'' (VList []) = VList ts" and "list_all is_task_entry ts"
  shows "track_goal_progress k db g =
           PlanStatus g (dict_get data ''objective'' (VStr ''N/A''))
             (length (filter entry_completed ts)) (length ts)
             (dict_get data ''status'' (VStr ''unknown''))
             (dict_get data ''created_at'' (VStr ''N/A''))
       \<and> (ts = [] \<longrightarrow>
            track_goal_progress k db g =
              PlanStatus g (dict_get data ''objective'' (VStr ''N/A'')) 0 0
                (dict_get data ''status'' (VStr ''unknown''))
                (dict_get data ''created_at'' (VStr ''N/A'')))"
  using assms by (auto simp: reads_ok_track completed_of_entries)

theorem plan_progress_counts_completed_witness:
  "track_goal_progress quiet_sdk plan_db ''p1'' =
     PlanStatus ''p1'' (VStr ''Deploy auth system'') 2 3 (VStr ''active'') (VStr ''N/A'')
   \<and> track_goal_progress quiet_sdk
       (snd (create_task_plan quiet_sdk empty_db ''Deploy auth system'' None)) ''t1'' =
     PlanStatus ''t1'' (VStr ''Deploy auth system'') 0 0 (VStr ''draft'')
       (VStr ''2025-01-01T00:00:00+00:00'')"
proof -
  let ?ts = "[VDict [(''status'', VStr ''completed'')],
              VDict [(''status'', VStr ''failed'')],
              VDict [(''status'', VStr ''completed'')]]"
  let ?data = "[(''objective'', VStr ''Deploy auth system''),
                (''status'', VStr ''active''),
                (''tasks'', VList ?ts)]"
  let ?db = "snd (create_task_plan quiet_sdk empty_db ''Deploy auth system'' None)"
  let ?new = "[(''objective'', VStr ''Deploy auth system''),
               (''context'', VStr []),
               (''status'', VStr ''draft''),
               (''created_at'', VStr ''2025-01-01T00:00:00+00:00''),
               (''created_by'', VStr ''supreme_commander''),
               (''tasks'', VList [])]"
  have h1: "reads_ok quiet_sdk" by (simp add: reads_ok_def quiet_sdk_def)
  have h2: "tasks plan_db ''p1'' = None" by (simp add: plan_db_def)
  have h3: "task_plans plan_db ''p1'' = Some ?data" by (simp add: plan_db_def)
  have h4: "dict_get ?data ''tasks'' (VList []) = VList ?ts" by (simp add: dict_get_def)
  have h5: "list_all is_task_entry ?ts" by simp
  have e2: "tasks ?db ''t1'' = None"
    by (simp add: create_task_plan_def quiet_sdk_def empty_db_def default_arg_def Let_def)
  have e3: "task_plans ?db ''t1'' = Some ?new"
    by (simp add: create_task_plan_def quiet_sdk_def empty_db_def default_arg_def Let_def)
  have e4: "dict_get ?new ''tasks'' (VList []) = VList []" by (simp add: dict_get_def)
  have e5: "list_all is_task_entry []" by simp
  from plan_progress_counts_completed [OF h1 h2 h3 h4 h5]
       plan_progress_counts_completed [OF h1 e2 e3 e4 e5]
  show ?thesis by (simp add: dict_get_def)
qed

section \<open>Creating a task\<close>




section \<open>Failures of the store\<close>



section \<open>The task lifecycle\<close>

lemma legal_transition_stage: "legal_transition s s' \<longleftrightarrow> stage s < stage s'"
  by (cases s; cases s') simp_all

lemma terminal_no_transition: "terminal s \<Longrightarrow> \<not> legal_transition s s'"
  by (cases s; cases s') (simp_all add: terminal_def)

text \<open>
  Claim C1. For a stored task and any requested status, a request that does not move the
  status forward along assigned, in_progress, then completed or failed (in particular any
  request on a task that is completed or failed) is answered with
  \<^verbatim>\<open>InvalidTransitionError\<close> and the ledger is returned as it was, while a request
  that moves forward updates the status of that task. The check is the single test in
  \<^verbatim>\<open>advance_task_status\<close>.
\<close>

theorem advance_task_status_forward_only:
  assumes "L i = Some t"
  shows "(\<not> stage (status t) < stage s \<longrightarrow>
            advance_task_status L i s = (Inl InvalidTransitionError, L))
       \<and> (terminal (status t) \<longrightarrow>
            advance_task_status L i s = (Inl InvalidTransitionError, L))
       \<and> (stage (status t) < stage s \<longrightarrow>
            advance_task_status L i s = (Inr (), L(i \<mapsto> t\<lparr>status := s\<rparr>)))"
  using assms terminal_no_transition [of "status t" s]
  by (simp add: advance_task_status_def legal_transition_stage)

theorem advance_task_status_forward_only_witness:
  "advance_task_status done_ledger ''task_1'' Assigned = (Inl InvalidTransitionError, done_ledger)
   \<and> advance_task_status done_ledger ''task_1'' Failed = (Inl InvalidTransitionError, done_ledger)
   \<and> fst (advance_task_status done_ledger ''task_2'' InProgress) = Inr ()
   \<and> map_option status (snd (advance_task_status done_ledger ''task_2'' InProgress) ''task_2'')
       = Some InProgress"
proof -
  let ?t1 = "\<lparr>agent = ''engineering_agent_1'', description = ''Rotate the keys'', priority = High,
         status = Completed, created_at = ''2025-01-01T00:00:00+00:00'',
         created_by = ''supreme_commander''\<rparr>"
  let ?t2 = "\<lparr>agent = ''data_analyst_agent'', description = ''Q4 report'', priority = Medium,
         status = Assigned, created_at = ''2025-01-02T00:00:00+00:00'',
         created_by = ''supreme_commander''\<rparr>"
  have h1: "done_ledger ''task_1'' = Some ?t1" by (simp add: done_ledger_def)
  have h2: "done_ledger ''task_2'' = Some ?t2" by (simp add: done_ledger_def)
  from advance_task_status_forward_only [of done_ledger "''task_1''" ?t1 Assigned]
       advance_task_status_forward_only [of done_ledger "''task_1''" ?t1 Failed]
       advance_task_status_forward_only [of done_ledger "''task_2''" ?t2 InProgress]
       h1 h2
  show ?thesis by (simp add: terminal_def)
qed

text \<open>
  Over any sequence of requests the stage of a task never decreases, and a task that is
  completed or failed stays as it is.
\<close>

lemma advance_task_status_stage:
  assumes "L i = Some t"
  shows "\<exists>t'. snd (advance_task_status L j s) i = Some t'
             \<and> stage (status t) \<le> stage (status t') \<and> (terminal (status t) \<longrightarrow> t' = t)"
proof (cases "j = i")
  case True
  with assms terminal_no_transition [of "status t" s] show ?thesis
    by (auto simp: advance_task_status_def legal_transition_stage)
next
  case False
  with assms show ?thesis
    by (auto simp: advance_task_status_def split: option.splits)
qed

lemma advance_all_stage:
  "L i = Some t \<Longrightarrow>
     \<exists>t'. advance_all L rs i = Some t'
          \<and> stage (status t) \<le> stage (status t') \<and> (terminal (status t) \<longrightarrow> t' = t)"
proof (induction rs arbitrary: L t)
  case Nil
  then show ?case by simp
next
  case (Cons r rs)
  obtain j s where r: "r = (j, s)" by (cases r)
  from advance_task_status_stage [of L i t j s] Cons.prems
  obtain t1 where t1: "snd (advance_task_status L j s) i = Some t1"
    and le1: "stage (status t) \<le> stage (status t1)"
    and fix1: "terminal (status t) \<longrightarrow> t1 = t" by blast
  from Cons.IH [of "snd (advance_task_status L j s)" t1] t1
  obtain t' where t': "advance_all (snd (advance_task_status L j s)) rs i = Some t'"
    and le2: "stage (status t1) \<le> stage (status t')"
    and fix2: "terminal (status t1) \<longrightarrow> t' = t1" by blast
  from t' le1 le2 fix1 fix2 show ?case
    unfolding r by auto
qed

section \<open>Slack notification priority\<close>

lemma sublist_skip_prefix:
  "c \<notin> set pre \<Longrightarrow> sublist (c # m) (pre @ x) \<longleftrightarrow> sublist (c # m) x"
  by (induction pre) (auto simp: sublist_Cons_right)

lemma emoji_has_no_bracket:
  "CHR ''<'' \<notin> set ((case map_of emoji_map p of Some e \<Rightarrow> e | None \<Rightarrow> info_emoji) @ '' '')"
  by (simp add: emoji_map_def info_emoji_def warning_emoji_def critical_emoji_def)

lemma emoji_not_empty:
  "(case map_of emoji_map p of Some e \<Rightarrow> e | None \<Rightarrow> info_emoji) \<noteq> []"
  by (simp add: emoji_map_def info_emoji_def warning_emoji_def critical_emoji_def)

lemma plain_message_not_flagged:
  assumes "p \<noteq> ''critical''"
  shows "\<not> prefix channel_mention (formatted_message p msg)
       \<and> (sublist channel_mention (formatted_message p msg) \<longleftrightarrow> sublist channel_mention msg)"
proof -
  let ?e = "(case map_of emoji_map p of Some e \<Rightarrow> e | None \<Rightarrow> info_emoji)"
  have f: "formatted_message p msg = (?e @ '' '') @ msg"
    using assms by (simp add: formatted_message_def)
  have m: "channel_mention = CHR ''<'' # ''!channel>''" by (simp add: channel_mention_def)
  obtain c cs where e: "?e = c # cs" using emoji_not_empty [of p] by (cases ?e) auto
  with emoji_has_no_bracket [of p] have "c \<noteq> CHR ''<''" by auto
  then have "\<not> prefix channel_mention (formatted_message p msg)"
    unfolding f m e by simp
  moreover have "sublist channel_mention ((?e @ '' '') @ msg) \<longleftrightarrow> sublist channel_mention msg"
    unfolding m by (rule sublist_skip_prefix [OF emoji_has_no_bracket])
  ultimately show ?thesis unfolding f by blast
qed

text \<open>
  Claim C7. When a message is posted, the text handed to \<^verbatim>\<open>chat_postMessage\<close> for
  priority \<^verbatim>\<open>critical\<close> is the channel mention, a space, the emoji, a space and the
  message; for \<^verbatim>\<open>info\<close> (also when the priority is omitted) and \<^verbatim>\<open>warning\<close> it is
  the emoji, a space and the message. For every priority other than \<^verbatim>\<open>critical\<close> the
  text does not start with the channel mention and contains it exactly when the message
  itself does.
\<close>

theorem critical_notification_is_flagged:
  "(pr = Some ''critical'' \<longrightarrow>
      snd (send_slack_notification (Some post) ch msg pr) =
        Some (ch, channel_mention @ '' '' @ critical_emoji @ '' '' @ msg))
   \<and> (pr = None \<or> pr = Some ''info'' \<longrightarrow>
      snd (send_slack_notification (Some post) ch msg pr) = Some (ch, info_emoji @ '' '' @ msg))
   \<and> (pr = Some ''warning'' \<longrightarrow>
      snd (send_slack_notification (Some post) ch msg pr) = Some (ch, warning_emoji @ '' '' @ msg))
   \<and> (pr \<noteq> Some ''critical'' \<longrightarrow>
      (\<exists>text. snd (send_slack_notification (Some post) ch msg pr) = Some (ch, text)
         \<and> \<not> prefix channel_mention text
         \<and> (sublist channel_mention text \<longleftrightarrow> sublist channel_mention msg)))"
proof -
  have s: "snd (send_slack_notification (Some post) ch msg pr) =
             Some (ch, formatted_message (default_arg pr ''info'') msg)"
    by (simp add: send_slack_notification_def Let_def)
  have "pr \<noteq> Some ''critical'' \<Longrightarrow> default_arg pr ''info'' \<noteq> ''critical''"
    by (cases pr) (simp_all add: default_arg_def)
  then show ?thesis
    unfolding s using plain_message_not_flagged [of "default_arg pr ''info''" msg]
    by (auto simp: formatted_message_def default_arg_def emoji_map_def)
qed

theorem critical_notification_is_flagged_witness:
  "snd (send_slack_notification (Some echo_client) ''general'' ''Critical alert'' (Some ''critical''))
     = Some (''general'', ''<!channel> '' @ critical_emoji @ '' Critical alert'')
   \<and> snd (send_slack_notification (Some echo_client) ''general'' ''Test message'' (Some ''info''))
     = Some (''general'', info_emoji @ '' Test message'')
   \<and> snd (send_slack_notification (Some echo_client) ''general'' ''Test message'' None)
     = Some (''general'', info_emoji @ '' Test message'')
   \<and> snd (send_slack_notification (Some echo_client) ''general'' ''Disk at 91%'' (Some ''warning''))
     = Some (''general'', warning_emoji @ '' Disk at 91%'')"
  using critical_notification_is_flagged
          [of "Some ''critical''" echo_client "''general''" "''Critical alert''"]
        critical_notification_is_flagged
          [of "Some ''info''" echo_client "''general''" "''Test message''"]
        critical_notification_is_flagged
          [of None echo_client "''general''" "''Test message''"]
        critical_notification_is_flagged
          [of "Some ''warning''" echo_client "''general''" "''Disk at 91%''"]
  by (simp add: channel_mention_def)

section \<open>Outcomes of peer coordination\<close>





section \<open>Deduplication of Slack events\<close>









end
